theory Spec2Isabelle
  imports Main "HOL-Library.Sublist"
begin

section \<open>The Agmarknet price service (python-scraper/app.py)\<close>

text \<open>
  The program is a Flask application with two views: \<open>home\<close> on the path \<open>/\<close> and
  \<open>get_price\<close> on the path \<open>/request\<close>. The views are embedded as HOL functions
  from what the framework hands them (the parsed query string, the reading of the
  system clock) to the response the framework sends back (a status and a body).
\<close>

subsection \<open>Values\<close>

text \<open>
  \<open>request.args.get(k)\<close> gives either \<open>None\<close> or a \<open>str\<close>; both kinds of value flow
  into the \<open>if\<close> tests and into the dictionary handed to \<open>jsonify\<close>. Strings are byte
  strings (the UTF-8 text of the query value); the program never looks inside them.
\<close>

datatype pyval = PyNone | PyStr string

text \<open>Python's truth value: \<open>None\<close> and the empty string are false.\<close>

fun truthy :: "pyval \<Rightarrow> bool" where
  "truthy PyNone = False"
| "truthy (PyStr s) = (s \<noteq> [])"

text \<open>
  The JSON documents the views build: strings, \<open>null\<close>, lists and dictionaries. A
  dictionary keeps the order of its literal.
\<close>

datatype json = JNull | JString string | JArray "json list" | JObject "(string \<times> json) list"

fun to_json :: "pyval \<Rightarrow> json" where
  "to_json PyNone = JNull"
| "to_json (PyStr s) = JString s"

text \<open>
  An instance of \<open>Exception\<close>, as far as the program looks at it: \<open>str(e)\<close>.
\<close>

datatype exn = Exception (exn_str: string)

subsection \<open>Requests and responses\<close>

text \<open>
  \<open>request.args\<close> is a multi-dictionary: the pairs of the query string in their order,
  a key possibly more than once. \<open>get\<close> returns the first value of the key, or the
  default.
\<close>

type_synonym args = "(string \<times> string) list"

definition args_get :: "args \<Rightarrow> string \<Rightarrow> pyval \<Rightarrow> pyval" where
  "args_get a k dflt = (case map_of a k of None \<Rightarrow> dflt | Some v \<Rightarrow> PyStr v)"

datatype http_method = GET | HEAD | OPTIONS | POST | PUT | DELETE | PATCH

record http_request =
  meth :: http_method
  path :: string
  args :: args

datatype body = Text string | Json json

record response =
  status :: nat
  body :: body

text \<open>
  \<open>jsonify(v)\<close> is a response with status 200 carrying the document; a view that
  returns the pair \<open>(response, n)\<close> has the status replaced by \<open>n\<close>; a view that
  returns a \<open>str\<close> has it sent with status 200.
\<close>

definition jsonify :: "json \<Rightarrow> response" where
  "jsonify v = \<lparr>status = 200, body = Json v\<rparr>"

definition with_status :: "response \<Rightarrow> nat \<Rightarrow> response" where
  "with_status r n = r\<lparr>status := n\<rparr>"

definition text_response :: "string \<Rightarrow> response" where
  "text_response s = \<lparr>status = 200, body = Text s\<rparr>"

subsection \<open>The clock and \<open>strftime\<close>\<close>

text \<open>
  \<open>datetime.now()\<close> reads the system clock. A \<open>datetime\<close> object has the fields
  below; its constructor keeps the year in 1..9999, the month in 1..12 and the day in
  1..31.
\<close>

record datetime =
  year :: nat
  month :: nat
  day :: nat
  hour :: nat
  minute :: nat
  second :: nat
  microsecond :: nat

definition valid_datetime :: "datetime \<Rightarrow> bool" where
  "valid_datetime d \<longleftrightarrow>
     1 \<le> year d \<and> year d \<le> 9999 \<and> 1 \<le> month d \<and> month d \<le> 12 \<and>
     1 \<le> day d \<and> day d \<le> 31 \<and> hour d < 24 \<and> minute d < 60 \<and> second d < 60 \<and>
     microsecond d < 1000000"

text \<open>
  The call is the one place of \<open>get_price\<close> that reads anything outside the request, and
  a library call may raise: its outcome is either an exception or a \<open>datetime\<close>.
\<close>

type_synonym clock = "exn + datetime"

text \<open>
  \<open>strftime("%d %b %Y")\<close>, as the library documents the three directives: \<open>%d\<close> is the day
  of the month as a zero-padded decimal number (01..31), \<open>%b\<close> the abbreviated month
  name (the program never sets a locale, so the names are the English ones), \<open>%Y\<close> the
  year with century as a decimal number. The C library writes the year with the digits
  it has: 2024 is "2024" and 999 is "999", with no padding.
\<close>

definition digit_char :: "nat \<Rightarrow> char" where
  "digit_char n = ''0123456789'' ! (n mod 10)"

definition zfill2 :: "nat \<Rightarrow> string" where
  "zfill2 n = [digit_char (n div 10), digit_char n]"

fun year_digits :: "nat \<Rightarrow> string" where
  "year_digits n = (if n < 10 then [digit_char n] else year_digits (n div 10) @ [digit_char n])"

declare year_digits.simps [simp del]

definition month_names :: "string list" where
  "month_names = [''Jan'', ''Feb'', ''Mar'', ''Apr'', ''May'', ''Jun'',
                  ''Jul'', ''Aug'', ''Sep'', ''Oct'', ''Nov'', ''Dec'']"

text \<open>No \<open>datetime\<close> has a month outside 1..12; the model gives the empty name there.\<close>

definition month_abbr :: "nat \<Rightarrow> string" where
  "month_abbr m = (if 1 \<le> m \<and> m \<le> 12 then month_names ! (m - 1) else [])"

definition strftime_d_b_Y :: "datetime \<Rightarrow> string" where
  "strftime_d_b_Y d = zfill2 (day d) @ '' '' @ month_abbr (month d) @ '' '' @ year_digits (year d)"

subsection \<open>The views\<close>


definition home :: response where
  "home = text_response
     ''Agmarknet Scraper API is Running! Use /request?commodity=Wheat&state=Punjab''"

text \<open>
  The body of the \<open>try\<close> statement of \<open>get_price\<close>: \<open>Inl e\<close> when a step raises \<open>e\<close>,
  \<open>Inr r\<close> when the block returns \<open>r\<close>. The dictionary \<open>headers\<close> is built and never used.
\<close>

definition price_block :: "clock \<Rightarrow> pyval \<Rightarrow> pyval \<Rightarrow> pyval \<Rightarrow> exn + response" where
  "price_block clk commodity state market =
     (let headers = [(''User-Agent'',
            ''Mozilla/5.0 (Windows NT 10.0; Win64; x64) AppleWebKit/537.36 (KHTML, like Gecko) Chrome/91.0.4472.124 Safari/537.36'')]
      in case clk of
           Inl e \<Rightarrow> Inl e
         | Inr now \<Rightarrow>
             (let current_date = strftime_d_b_Y now;
                  data = JArray [JObject
                    [(''S.No'', JString ''1''),
                     (''City'', to_json (if truthy market then market else state)),
                     (''Commodity'', to_json commodity),
                     (''Min Prize'', JString ''2200''),
                     (''Max Prize'', JString ''2400''),
                     (''Model Prize'', JString ''2300''),
                     (''Date'', JString current_date)]]
              in Inr (jsonify data)))"

definition get_price :: "clock \<Rightarrow> args \<Rightarrow> response" where
  "get_price clk a =
     (let commodity = args_get a ''commodity'' PyNone;
          state = args_get a ''state'' PyNone;
          market = args_get a ''market'' (PyStr [])
      in if \<not> truthy commodity \<or> \<not> truthy state
         then with_status
                (jsonify (JObject [(''error'', JString ''Please provide commodity and state'')])) 400
         else (case price_block clk commodity state market of
                 Inr r \<Rightarrow> r
               | Inl e \<Rightarrow> with_status (jsonify (JObject [(''error'', JString (exn_str e))])) 500))"

text \<open>
  The two \<open>app.route\<close> declarations. Anything else (another path, another method) is
  answered by the framework and not by a view of this program: \<open>None\<close>.
\<close>

definition dispatch :: "clock \<Rightarrow> http_request \<Rightarrow> response option" where
  "dispatch clk req =
     (if meth req = GET \<and> path req = ''/'' then Some home
      else if meth req = GET \<and> path req = ''/request'' then Some (get_price clk (args req))
      else None)"







subsection \<open>Reading a response\<close>

text \<open>
  The field \<open>k\<close> of the record in a response whose body is a JSON array of exactly one
  dictionary; \<open>None\<close> for any other response.
\<close>

definition record_field :: "response \<Rightarrow> string \<Rightarrow> json option" where
  "record_field r k =
     (case body r of
        Json (JArray [JObject kvs]) \<Rightarrow> map_of kvs k
      | _ \<Rightarrow> None)"

subsection \<open>The words of the specification\<close>

text \<open>
  A parameter is provided when the query string has the key and the first value of the
  key is not the empty string.
\<close>

definition provided :: "args \<Rightarrow> string \<Rightarrow> bool" where
  "provided a k = (case map_of a k of None \<Rightarrow> False | Some v \<Rightarrow> v \<noteq> [])"

text \<open>
  The date pattern "DD Mon YYYY" read off a string: two decimal digits that spell the
  day, a space, the three letters of the month, a space, four decimal digits that
  spell the year. This is written from the pattern, not from \<open>strftime_d_b_Y\<close>.
\<close>

definition is_digit :: "char \<Rightarrow> bool" where
  "is_digit c \<longleftrightarrow> c \<in> set ''0123456789''"

definition digit_val :: "char \<Rightarrow> nat" where
  "digit_val c = of_char c - 48"

definition decimal :: "string \<Rightarrow> nat" where
  "decimal s = foldl (\<lambda>n c. 10 * n + digit_val c) 0 s"

definition month_table :: "(nat \<times> string) list" where
  "month_table =
     [(1, ''Jan''), (2, ''Feb''), (3, ''Mar''), (4, ''Apr''), (5, ''May''), (6, ''Jun''),
      (7, ''Jul''), (8, ''Aug''), (9, ''Sep''), (10, ''Oct''), (11, ''Nov''), (12, ''Dec'')]"

definition is_DD_Mon_YYYY :: "datetime \<Rightarrow> string \<Rightarrow> bool" where
  "is_DD_Mon_YYYY d s \<longleftrightarrow>
     length s = 11
     \<and> list_all is_digit (take 2 s) \<and> decimal (take 2 s) = day d
     \<and> s ! 2 = CHR '' ''
     \<and> map_of month_table (month d) = Some (take 3 (drop 3 s))
     \<and> s ! 6 = CHR '' ''
     \<and> list_all is_digit (drop 7 s) \<and> decimal (drop 7 s) = year d"

text \<open>Two readings of the clock on the same day, for the examples below.\<close>

abbreviation jun_5_morning :: datetime where
  "jun_5_morning \<equiv> \<lparr>year = 2024, month = 6, day = 5,
                      hour = 9, minute = 15, second = 0, microsecond = 0\<rparr>"


section \<open>Lemmas about the model\<close>

subsection \<open>Validation\<close>

lemma provided_iff: "provided a k \<longleftrightarrow> (\<exists>v. map_of a k = Some v \<and> v \<noteq> [])"
  by (simp add: provided_def split: option.split)

lemma truthy_args_get: "truthy (args_get a k PyNone) = provided a k"
  by (simp add: args_get_def provided_def split: option.split)

lemma args_get_Some: "map_of a k = Some v \<Longrightarrow> args_get a k dflt = PyStr v"
  by (simp add: args_get_def)

lemma get_price_rejects:
  "\<not> provided a ''commodity'' \<or> \<not> provided a ''state'' \<Longrightarrow>
   get_price clk a =
     \<lparr>status = 400,
      body = Json (JObject [(''error'', JString ''Please provide commodity and state'')])\<rparr>"
  by (auto simp add: get_price_def Let_def truthy_args_get jsonify_def with_status_def)

lemma get_price_accepts:
  "provided a ''commodity'' \<Longrightarrow> provided a ''state'' \<Longrightarrow>
   get_price clk a =
     (case price_block clk (args_get a ''commodity'' PyNone) (args_get a ''state'' PyNone)
             (args_get a ''market'' (PyStr [])) of
        Inr r \<Rightarrow> r
      | Inl e \<Rightarrow> \<lparr>status = 500, body = Json (JObject [(''error'', JString (exn_str e))])\<rparr>)"
  by (simp add: get_price_def Let_def truthy_args_get jsonify_def with_status_def
           split: sum.split)

subsection \<open>The block\<close>

lemma price_block_returns:
  "price_block (Inr now) commodity state market =
     Inr \<lparr>status = 200, body = Json (JArray [JObject
        [(''S.No'', JString ''1''),
         (''City'', to_json (if truthy market then market else state)),
         (''Commodity'', to_json commodity),
         (''Min Prize'', JString ''2200''),
         (''Max Prize'', JString ''2400''),
         (''Model Prize'', JString ''2300''),
         (''Date'', JString (strftime_d_b_Y now))]])\<rparr>"
  by (simp add: price_block_def Let_def jsonify_def)

lemma price_block_raises: "price_block (Inl e) commodity state market = Inl e"
  by (simp add: price_block_def)

lemma get_price_ok:
  assumes "provided a ''commodity''" and "provided a ''state''"
  shows "get_price (Inr now) a =
     \<lparr>status = 200, body = Json (JArray [JObject
        [(''S.No'', JString ''1''),
         (''City'', to_json (if truthy (args_get a ''market'' (PyStr []))
                             then args_get a ''market'' (PyStr [])
                             else args_get a ''state'' PyNone)),
         (''Commodity'', to_json (args_get a ''commodity'' PyNone)),
         (''Min Prize'', JString ''2200''),
         (''Max Prize'', JString ''2400''),
         (''Model Prize'', JString ''2300''),
         (''Date'', JString (strftime_d_b_Y now))]])\<rparr>"
  by (simp only: get_price_accepts [OF assms] price_block_returns sum.case)

lemma get_price_clock_raised:
  assumes "provided a ''commodity''" and "provided a ''state''"
  shows "get_price (Inl e) a =
     \<lparr>status = 500, body = Json (JObject [(''error'', JString (exn_str e))])\<rparr>"
  by (simp only: get_price_accepts [OF assms] price_block_raises sum.case)

lemma market_choice:
  "map_of a ''state'' = Some s \<Longrightarrow>
   to_json (if truthy (args_get a ''market'' (PyStr []))
            then args_get a ''market'' (PyStr [])
            else args_get a ''state'' PyNone)
   = JString (case map_of a ''market'' of None \<Rightarrow> s | Some m \<Rightarrow> if m \<noteq> [] then m else s)"
  by (simp add: args_get_def split: option.split)

subsection \<open>Digits and month names\<close>

lemma upt_10: "[0..<10] = [0, 1, 2, 3, 4, 5, 6, 7, 8, 9::nat]"
  by (simp add: upt_rec)

lemma below_10_cases: "k < 10 \<Longrightarrow> k \<in> set [0, 1, 2, 3, 4, 5, 6, 7, 8, 9::nat]"
proof -
  assume "k < 10"
  then have "k \<in> set [0..<10]" by simp
  then show ?thesis by (simp only: upt_10)
qed

lemma digit_below_10:
  assumes "k < 10"
  shows "is_digit (''0123456789'' ! k) \<and> digit_val (''0123456789'' ! k) = k"
  using below_10_cases [OF assms]
  by (auto simp: is_digit_def digit_val_def)

lemma digit_char_props: "is_digit (digit_char n) \<and> digit_val (digit_char n) = n mod 10"
  unfolding digit_char_def by (rule digit_below_10) simp

lemma two_digits:
  fixes n :: nat
  assumes "n < 100"
  shows "10 * (n div 10 mod 10) + n mod 10 = n"
proof -
  have "n div 10 < 10" using assms by (simp add: less_mult_imp_div_less)
  then show ?thesis by simp
qed

lemma four_digits:
  fixes n :: nat
  assumes "n < 10000"
  shows "10 * (10 * (10 * (n div 1000 mod 10) + n div 100 mod 10) + n div 10 mod 10)
           + n mod 10 = n"
proof -
  define q1 where "q1 = n div 10"
  define q2 where "q2 = q1 div 10"
  define q3 where "q3 = q2 div 10"
  define r0 where "r0 = n mod 10"
  define r1 where "r1 = q1 mod 10"
  define r2 where "r2 = q2 mod 10"
  have e1: "n = 10 * q1 + r0" unfolding q1_def r0_def by simp
  have e2: "q1 = 10 * q2 + r1" unfolding q2_def r1_def by simp
  have e3: "q2 = 10 * q3 + r2" unfolding q3_def r2_def by simp
  have h2: "n div 100 = q2" unfolding q2_def q1_def by (simp add: div_mult2_eq)
  have h3: "n div 1000 = q3" unfolding q3_def q2_def q1_def by (simp add: div_mult2_eq)
  have "q3 < 10" using assms h3 by (simp add: less_mult_imp_div_less)
  then have m3: "q3 mod 10 = q3" by simp
  have "10 * (10 * (10 * q3 + r2) + r1) + r0 = 10 * (10 * q2 + r1) + r0"
    by (simp only: e3 [symmetric])
  also have "\<dots> = 10 * q1 + r0"
    by (simp only: e2 [symmetric])
  also have "\<dots> = n"
    by (simp only: e1 [symmetric])
  finally have "10 * (10 * (10 * q3 + r2) + r1) + r0 = n" .
  then show ?thesis
    unfolding h2 h3 m3 r0_def r1_def r2_def q1_def q2_def by simp
qed

lemma decimal_zfill2: "n < 100 \<Longrightarrow> decimal (zfill2 n) = n"
  by (simp add: decimal_def zfill2_def digit_char_props two_digits)

lemma year_digits_four:
  assumes "1000 \<le> n" and "n < 10000"
  shows "year_digits n =
           [digit_char (n div 1000), digit_char (n div 100), digit_char (n div 10), digit_char n]"
proof -
  have d2: "n div 10 div 10 = n div 100" and d3: "n div 100 div 10 = n div 1000"
    by (simp_all add: div_mult2_eq)
  have b1: "\<not> n < 10" and b2: "\<not> n div 10 < 10" and b3: "\<not> n div 100 < 10"
    and b4: "n div 1000 < 10"
    using assms by simp_all
  have "year_digits n = year_digits (n div 10) @ [digit_char n]"
    using b1 by (subst year_digits.simps) simp
  also have "year_digits (n div 10) = year_digits (n div 100) @ [digit_char (n div 10)]"
    using b2 by (subst year_digits.simps) (simp add: d2)
  also have "year_digits (n div 100) = year_digits (n div 1000) @ [digit_char (n div 100)]"
    using b3 by (subst year_digits.simps) (simp add: d3)
  also have "year_digits (n div 1000) = [digit_char (n div 1000)]"
    using b4 by (subst year_digits.simps) simp
  finally show ?thesis by simp
qed

lemma decimal_year_digits:
  assumes "1000 \<le> n" and "n < 10000"
  shows "decimal (year_digits n) = n"
proof -
  have "decimal (year_digits n) =
          10 * (10 * (10 * (n div 1000 mod 10) + n div 100 mod 10) + n div 10 mod 10)
            + n mod 10"
    by (simp add: year_digits_four [OF assms] decimal_def digit_char_props)
  also have "\<dots> = n"
    by (rule four_digits [OF assms(2)])
  finally show ?thesis .
qed

lemma upt_1_13: "[1..<13] = [1, 2, 3, 4, 5, 6, 7, 8, 9, 10, 11, 12::nat]"
  by (simp add: upt_rec)

lemma month_cases:
  "1 \<le> m \<Longrightarrow> m \<le> 12 \<Longrightarrow> m \<in> set [1, 2, 3, 4, 5, 6, 7, 8, 9, 10, 11, 12::nat]"
proof -
  assume "1 \<le> m" "m \<le> 12"
  then have "m \<in> set [1..<13]" by simp
  then show ?thesis by (simp only: upt_1_13)
qed

lemma month_abbr_table:
  assumes "1 \<le> m" and "m \<le> 12"
  shows "map_of month_table m = Some (month_abbr m) \<and> length (month_abbr m) = 3"
  using month_cases [OF assms]
  by (auto simp: month_table_def month_abbr_def month_names_def)

lemma strftime_shape:
  assumes "valid_datetime d" and "1000 \<le> year d"
  shows "is_DD_Mon_YYYY d (strftime_d_b_Y d)"
proof -
  from assms have m: "1 \<le> month d" "month d \<le> 12" and dd: "day d < 100"
    and y: "year d < 10000"
    by (simp_all add: valid_datetime_def)
  note mt = month_abbr_table [OF m]
  note yd = year_digits_four [OF assms(2) y]
  have z2: "length (zfill2 (day d)) = 2" by (simp add: zfill2_def)
  have z4: "length (year_digits (year d)) = 4" by (simp add: yd)
  have d2: "list_all is_digit (zfill2 (day d))" by (simp add: zfill2_def digit_char_props)
  have d4: "list_all is_digit (year_digits (year d))" by (simp add: yd digit_char_props)
  show ?thesis
    unfolding is_DD_Mon_YYYY_def strftime_d_b_Y_def
    using mt z2 z4 d2 d4 decimal_zfill2 [OF dd] decimal_year_digits [OF assms(2) y]
    by (simp add: nth_append)
qed

lemma strftime_jun_5: "strftime_d_b_Y jun_5_morning = ''05 Jun 2024''"
proof -
  have "year_digits 2024 = ''2024''"
    by (simp add: year_digits_four digit_char_def)
  then show ?thesis
    by (simp add: strftime_d_b_Y_def zfill2_def digit_char_def month_abbr_def month_names_def)
qed

lemma strftime_year_999:
  "strftime_d_b_Y \<lparr>year = 999, month = 6, day = 5,
                   hour = 0, minute = 0, second = 0, microsecond = 0\<rparr> = ''05 Jun 999''"
proof -
  have "year_digits 999 = year_digits 99 @ [digit_char 999]"
    by (subst year_digits.simps) simp
  also have "year_digits 99 = year_digits 9 @ [digit_char 99]"
    by (subst year_digits.simps) simp
  also have "year_digits 9 = [digit_char 9]"
    by (subst year_digits.simps) simp
  finally have "year_digits 999 = ''999''"
    by (simp add: digit_char_def)
  then show ?thesis
    by (simp add: strftime_d_b_Y_def zfill2_def digit_char_def month_abbr_def month_names_def)
qed


subsection \<open>The server\<close>





section \<open>Properties\<close>

text \<open>
  C8. A GET request to the root path is answered with status 200 and a fixed text
  that contains "Agmarknet Scraper API is Running!", whatever the query parameters
  and whatever the clock reads.
\<close>

theorem home_fixed_text:
  assumes "meth req = GET" and "path req = ''/''"
  shows "dispatch clk req = Some home
       \<and> status home = 200
       \<and> body home = Text ''Agmarknet Scraper API is Running! Use /request?commodity=Wheat&state=Punjab''
       \<and> (\<exists>s. body home = Text s \<and> sublist ''Agmarknet Scraper API is Running!'' s)"
proof -
  have "prefix ''Agmarknet Scraper API is Running!''
          ''Agmarknet Scraper API is Running! Use /request?commodity=Wheat&state=Punjab''"
    by simp
  then have "sublist ''Agmarknet Scraper API is Running!''
          ''Agmarknet Scraper API is Running! Use /request?commodity=Wheat&state=Punjab''"
    by (rule prefix_imp_sublist)
  then show ?thesis
    using assms by (simp add: dispatch_def home_def text_response_def)
qed

theorem home_fixed_text_witness:
  "dispatch (Inl (Exception ''clock''))
      \<lparr>meth = GET, path = ''/'', args = [(''commodity'', ''Rice''), (''x'', ''y'')]\<rparr> = Some home
   \<and> status home = 200"
  using home_fixed_text [of "\<lparr>meth = GET, path = ''/'', args = [(''commodity'', ''Rice''), (''x'', ''y'')]\<rparr>"
                            "Inl (Exception ''clock'')"]
  by simp

text \<open>
  C1. When the commodity parameter or the state parameter is absent or empty, the
  answer of \<open>get_price\<close> is status 400 with the body
  \<open>{"error": "Please provide commodity and state"}\<close>; when both are provided, the
  status is not 400. Both hold whatever the clock does.
\<close>

theorem missing_param_400:
  "(\<not> provided a ''commodity'' \<or> \<not> provided a ''state'' \<longrightarrow>
      get_price clk a =
        \<lparr>status = 400,
         body = Json (JObject [(''error'', JString ''Please provide commodity and state'')])\<rparr>)
   \<and> (provided a ''commodity'' \<and> provided a ''state'' \<longrightarrow> status (get_price clk a) \<noteq> 400)"
proof (intro conjI impI)
  assume "\<not> provided a ''commodity'' \<or> \<not> provided a ''state''"
  then show "get_price clk a =
        \<lparr>status = 400,
         body = Json (JObject [(''error'', JString ''Please provide commodity and state'')])\<rparr>"
    by (rule get_price_rejects)
next
  assume ok: "provided a ''commodity'' \<and> provided a ''state''"
  show "status (get_price clk a) \<noteq> 400"
  proof (cases clk)
    case (Inl e)
    with ok show ?thesis by (simp add: get_price_clock_raised)
  next
    case (Inr now)
    with ok show ?thesis by (simp add: get_price_ok)
  qed
qed

theorem missing_param_400_witness:
  "get_price (Inr jun_5_morning) [(''state'', ''Punjab'')] =
     \<lparr>status = 400,
      body = Json (JObject [(''error'', JString ''Please provide commodity and state'')])\<rparr>
   \<and> get_price (Inr jun_5_morning) [(''commodity'', ''''), (''state'', ''Punjab'')] =
     \<lparr>status = 400,
      body = Json (JObject [(''error'', JString ''Please provide commodity and state'')])\<rparr>
   \<and> status (get_price (Inr jun_5_morning) [(''commodity'', ''Wheat''), (''state'', ''Punjab'')])
       \<noteq> 400"
  using missing_param_400 [of "[(''state'', ''Punjab'')]" "Inr jun_5_morning"]
        missing_param_400 [of "[(''commodity'', ''''), (''state'', ''Punjab'')]" "Inr jun_5_morning"]
        missing_param_400 [of "[(''commodity'', ''Wheat''), (''state'', ''Punjab'')]"
                              "Inr jun_5_morning"]
  by (simp add: provided_def)

text \<open>
  C2. In the record returned for a request with commodity and state provided, the field
  City is the market parameter when that is given and not empty, and the state
  parameter otherwise.
\<close>

theorem city_field:
  assumes "map_of a ''commodity'' = Some c" and "c \<noteq> []"
    and "map_of a ''state'' = Some s" and "s \<noteq> []"
  shows "record_field (get_price (Inr now) a) ''City'' =
           Some (JString (case map_of a ''market'' of
                            None \<Rightarrow> s
                          | Some m \<Rightarrow> if m \<noteq> [] then m else s))"
proof -
  have pc: "provided a ''commodity''" and ps: "provided a ''state''"
    using assms by (simp_all add: provided_def)
  show ?thesis
    by (simp add: get_price_ok [OF pc ps] record_field_def market_choice [OF assms(3)])
qed

theorem city_field_witness:
  "record_field (get_price (Inr jun_5_morning)
      [(''commodity'', ''Wheat''), (''state'', ''Punjab''), (''market'', ''Ludhiana'')]) ''City''
     = Some (JString ''Ludhiana'')
   \<and> record_field (get_price (Inr jun_5_morning)
      [(''commodity'', ''Wheat''), (''state'', ''Punjab'')]) ''City''
     = Some (JString ''Punjab'')
   \<and> record_field (get_price (Inr jun_5_morning)
      [(''commodity'', ''Wheat''), (''market'', ''''), (''state'', ''Punjab'')]) ''City''
     = Some (JString ''Punjab'')"
  using city_field [of "[(''commodity'', ''Wheat''), (''state'', ''Punjab''), (''market'', ''Ludhiana'')]"
                       "''Wheat''" "''Punjab''" jun_5_morning]
        city_field [of "[(''commodity'', ''Wheat''), (''state'', ''Punjab'')]"
                       "''Wheat''" "''Punjab''" jun_5_morning]
        city_field [of "[(''commodity'', ''Wheat''), (''market'', ''''), (''state'', ''Punjab'')]"
                       "''Wheat''" "''Punjab''" jun_5_morning]
  by simp

text \<open>
  C3. A request with commodity and state provided is answered with status 200 and a
  JSON array of exactly one element, a dictionary.
\<close>

theorem one_record_200:
  assumes "provided a ''commodity''" and "provided a ''state''"
  shows "status (get_price (Inr now) a) = 200
       \<and> (\<exists>fields. body (get_price (Inr now) a) = Json (JArray [JObject fields]))"
  by (simp add: get_price_ok [OF assms])

theorem one_record_200_witness:
  "status (get_price (Inr jun_5_morning) [(''commodity'', ''Wheat''), (''state'', ''Punjab'')]) = 200
   \<and> (\<exists>fields. body (get_price (Inr jun_5_morning)
                        [(''commodity'', ''Wheat''), (''state'', ''Punjab'')])
                 = Json (JArray [JObject fields]))"
  using one_record_200 [of "[(''commodity'', ''Wheat''), (''state'', ''Punjab'')]" jun_5_morning]
  by (simp add: provided_def)

text \<open>
  C4. In the record returned for a request with commodity and state provided, S.No is
  "1", Commodity is the commodity parameter unchanged, and Min Prize, Max Prize and
  Model Prize are "2200", "2400" and "2300", whatever the parameters and the date.
\<close>

theorem constant_fields:
  assumes "map_of a ''commodity'' = Some c" and "c \<noteq> []" and "provided a ''state''"
  shows "record_field (get_price (Inr now) a) ''S.No'' = Some (JString ''1'')
       \<and> record_field (get_price (Inr now) a) ''Commodity'' = Some (JString c)
       \<and> record_field (get_price (Inr now) a) ''Min Prize'' = Some (JString ''2200'')
       \<and> record_field (get_price (Inr now) a) ''Max Prize'' = Some (JString ''2400'')
       \<and> record_field (get_price (Inr now) a) ''Model Prize'' = Some (JString ''2300'')"
proof -
  have pc: "provided a ''commodity''"
    using assms(1,2) by (simp add: provided_def)
  show ?thesis
    by (simp add: get_price_ok [OF pc assms(3)] record_field_def args_get_Some [OF assms(1)])
qed

theorem constant_fields_witness:
  "record_field (get_price (Inr jun_5_morning) [(''commodity'', ''Rice''), (''state'', ''Kerala'')])
      ''S.No'' = Some (JString ''1'')
   \<and> record_field (get_price (Inr jun_5_morning) [(''commodity'', ''Rice''), (''state'', ''Kerala'')])
      ''Commodity'' = Some (JString ''Rice'')
   \<and> record_field (get_price (Inr jun_5_morning) [(''commodity'', ''Rice''), (''state'', ''Kerala'')])
      ''Min Prize'' = Some (JString ''2200'')
   \<and> record_field (get_price (Inr jun_5_morning) [(''commodity'', ''Rice''), (''state'', ''Kerala'')])
      ''Max Prize'' = Some (JString ''2400'')
   \<and> record_field (get_price (Inr jun_5_morning) [(''commodity'', ''Rice''), (''state'', ''Kerala'')])
      ''Model Prize'' = Some (JString ''2300'')"
  using constant_fields [of "[(''commodity'', ''Rice''), (''state'', ''Kerala'')]" "''Rice''"
                            jun_5_morning]
  by (simp add: provided_def)

text \<open>
  C5. For a clock that reads a date in the years 1000 to 9999, the field Date is that
  date formatted by \<open>strftime\<close>, and the string has the pattern "DD Mon YYYY": two
  digits spelling the day, the three-letter name of the month, four digits spelling
  the year.
\<close>

theorem date_field_format:
  assumes "provided a ''commodity''" and "provided a ''state''"
    and "valid_datetime now" and "1000 \<le> year now"
  shows "record_field (get_price (Inr now) a) ''Date'' = Some (JString (strftime_d_b_Y now))
       \<and> is_DD_Mon_YYYY now (strftime_d_b_Y now)"
  using strftime_shape [OF assms(3,4)]
  by (simp add: get_price_ok [OF assms(1,2)] record_field_def)

theorem date_field_format_witness:
  "valid_datetime jun_5_morning \<and> 1000 \<le> year jun_5_morning
   \<and> record_field (get_price (Inr jun_5_morning) [(''commodity'', ''Wheat''), (''state'', ''Punjab'')])
        ''Date'' = Some (JString ''05 Jun 2024'')
   \<and> is_DD_Mon_YYYY jun_5_morning ''05 Jun 2024''"
  using date_field_format [of "[(''commodity'', ''Wheat''), (''state'', ''Punjab'')]" jun_5_morning]
  by (simp add: provided_def valid_datetime_def strftime_jun_5)

text \<open>
  C6. When the block of the \<open>try\<close> statement raises \<open>e\<close>, the answer is status 500
  with the body \<open>{"error": str(e)}\<close>.
\<close>

theorem failure_in_block_500:
  assumes "provided a ''commodity''" and "provided a ''state''"
    and "price_block clk (args_get a ''commodity'' PyNone) (args_get a ''state'' PyNone)
           (args_get a ''market'' (PyStr [])) = Inl e"
  shows "get_price clk a =
           \<lparr>status = 500, body = Json (JObject [(''error'', JString (exn_str e))])\<rparr>"
  by (simp add: get_price_accepts [OF assms(1,2)] assms(3))

theorem failure_in_block_500_witness:
  "price_block (Inl (Exception ''timestamp out of range for platform time_t''))
      (PyStr ''Wheat'') (PyStr ''Punjab'') (PyStr '''')
     = Inl (Exception ''timestamp out of range for platform time_t'')
   \<and> get_price (Inl (Exception ''timestamp out of range for platform time_t''))
        [(''commodity'', ''Wheat''), (''state'', ''Punjab'')]
     = \<lparr>status = 500,
        body = Json (JObject [(''error'', JString ''timestamp out of range for platform time_t'')])\<rparr>"
  using failure_in_block_500 [of "[(''commodity'', ''Wheat''), (''state'', ''Punjab'')]"
          "Inl (Exception ''timestamp out of range for platform time_t'')"
          "Exception ''timestamp out of range for platform time_t''"]
  by (simp add: provided_def args_get_def price_block_raises)






text \<open>
  C10 as stated has the state echoed into City for every request with a non-empty
  commodity and state. With a market in the request, City is the market instead.
\<close>

theorem state_not_echoed_counterexample:
  "map_of [(''commodity'', ''Wheat''), (''state'', ''Punjab''), (''market'', ''Ludhiana'')]
      ''commodity'' = Some ''Wheat''
   \<and> map_of [(''commodity'', ''Wheat''), (''state'', ''Punjab''), (''market'', ''Ludhiana'')]
      ''state'' = Some ''Punjab''
   \<and> record_field (get_price (Inr jun_5_morning)
        [(''commodity'', ''Wheat''), (''state'', ''Punjab''), (''market'', ''Ludhiana'')]) ''City''
     \<noteq> Some (JString ''Punjab'')"
  by (simp add: get_price_def price_block_def args_get_def jsonify_def record_field_def)

text \<open>
  C10, amended. Validation looks at emptiness only: for any non-empty commodity and
  state (spaces included) the request is not rejected, Commodity is the commodity
  parameter verbatim, and City is the state parameter verbatim when no market is
  provided, and the market parameter verbatim when one is.
\<close>

theorem truthiness_only_validation:
  assumes "map_of a ''commodity'' = Some c" and "c \<noteq> []"
    and "map_of a ''state'' = Some s" and "s \<noteq> []"
  shows "status (get_price clk a) \<noteq> 400
       \<and> record_field (get_price (Inr now) a) ''Commodity'' = Some (JString c)
       \<and> (\<not> provided a ''market'' \<longrightarrow>
            record_field (get_price (Inr now) a) ''City'' = Some (JString s))
       \<and> (\<forall>m. map_of a ''market'' = Some m \<and> m \<noteq> [] \<longrightarrow>
            record_field (get_price (Inr now) a) ''City'' = Some (JString m))"
proof -
  have pc: "provided a ''commodity''" and ps: "provided a ''state''"
    using assms by (simp_all add: provided_def)
  have "status (get_price clk a) \<noteq> 400"
  proof (cases clk)
    case (Inl e)
    then show ?thesis by (simp add: get_price_clock_raised [OF pc ps])
  next
    case (Inr d)
    then show ?thesis by (simp add: get_price_ok [OF pc ps])
  qed
  moreover have "record_field (get_price (Inr now) a) ''Commodity'' = Some (JString c)"
    by (simp add: get_price_ok [OF pc ps] record_field_def args_get_Some [OF assms(1)])
  moreover have "record_field (get_price (Inr now) a) ''City'' =
      Some (JString (case map_of a ''market'' of None \<Rightarrow> s | Some m \<Rightarrow> if m \<noteq> [] then m else s))"
    by (simp add: get_price_ok [OF pc ps] record_field_def market_choice [OF assms(3)])
  ultimately show ?thesis
    by (auto simp: provided_def split: option.splits)
qed

theorem truthiness_only_validation_witness:
  "status (get_price (Inr jun_5_morning) [(''commodity'', ''  ''), (''state'', '' '')]) \<noteq> 400
   \<and> record_field (get_price (Inr jun_5_morning) [(''commodity'', ''  ''), (''state'', '' '')])
        ''Commodity'' = Some (JString ''  '')
   \<and> record_field (get_price (Inr jun_5_morning) [(''commodity'', ''  ''), (''state'', '' '')])
        ''City'' = Some (JString '' '')
   \<and> record_field (get_price (Inr jun_5_morning)
        [(''commodity'', ''  ''), (''state'', '' ''), (''market'', '' Ludhiana '')])
        ''City'' = Some (JString '' Ludhiana '')"
  using truthiness_only_validation [of "[(''commodity'', ''  ''), (''state'', '' '')]"
          "''  ''" "'' ''" "Inr jun_5_morning" jun_5_morning]
        truthiness_only_validation
          [of "[(''commodity'', ''  ''), (''state'', '' ''), (''market'', '' Ludhiana '')]"
          "''  ''" "'' ''" "Inr jun_5_morning" jun_5_morning]
  by (simp add: provided_def)

end
